theory Spec2Isabelle
  imports Complex_Main "HOL-Library.Word" "HOL-Library.AList"
begin

section \<open>Go values used by the log tailer\<close>

subsection \<open>float64\<close>

text \<open>
  A \<open>float64\<close> is a finite binary64 number, an infinity or NaN. A finite value is kept as
  the rational number it denotes (the sign of zero is not kept). Arithmetic rounds the
  exact result to the nearest binary64 number, ties to even: 53 significant bits,
  exponents of the last place from \<open>-1074\<close>, overflow to infinity from \<open>2 ^ 1024\<close> on.
\<close>

datatype float64 = Finite rat | PosInf | NegInf | NaN

fun bit_length :: "nat \<Rightarrow> nat" where
  "bit_length n = (if n = 0 then 0 else Suc (bit_length (n div 2)))"

declare bit_length.simps [simp del]

definition pow2 :: "int \<Rightarrow> rat" where
  "pow2 k = (if 0 \<le> k then 2 ^ nat k else 1 / 2 ^ nat (- k))"

definition floor_log2 :: "rat \<Rightarrow> int" where
  \<comment> \<open>for \<open>0 < r\<close>: the \<open>e\<close> with \<open>2 ^ e \<le> r < 2 ^ (e + 1)\<close>\<close>
  "floor_log2 r =
     (if 1 \<le> r then int (bit_length (nat \<lfloor>r\<rfloor>)) - 1
      else (let j = int (bit_length (nat \<lfloor>1 / r\<rfloor>)) - 1
            in if r * pow2 j = 1 then - j else - j - 1))"

definition round_half_even :: "rat \<Rightarrow> int" where
  "round_half_even x =
     (let f = \<lfloor>x\<rfloor>; d = x - of_int f
      in if d < 1 / 2 then f else if 1 / 2 < d then f + 1 else if even f then f else f + 1)"

definition nearest_binary64 :: "rat \<Rightarrow> rat" where
  \<comment> \<open>for \<open>0 < r\<close>: the multiple of the unit in the last place nearest to \<open>r\<close>\<close>
  "nearest_binary64 r =
     (let q = max (floor_log2 r - 52) (- 1074)
      in of_int (round_half_even (r / pow2 q)) * pow2 q)"

definition round_float64 :: "rat \<Rightarrow> float64" where
  "round_float64 r =
     (if r = 0 then Finite 0
      else let v = nearest_binary64 \<bar>r\<bar>
           in if pow2 1024 \<le> v then (if 0 < r then PosInf else NegInf)
              else Finite (if 0 < r then v else - v))"

fun float_sgn :: "float64 \<Rightarrow> int" where
  "float_sgn (Finite r) = (if r = 0 then 0 else if 0 < r then 1 else - 1)"
| "float_sgn PosInf = 1"
| "float_sgn NegInf = - 1"
| "float_sgn NaN = 0"

fun fmul :: "float64 \<Rightarrow> float64 \<Rightarrow> float64" where
  "fmul NaN y = NaN"
| "fmul x NaN = NaN"
| "fmul (Finite a) (Finite b) = round_float64 (a * b)"
| "fmul x y =
     (let s = float_sgn x * float_sgn y
      in if s = 0 then NaN else if 0 < s then PosInf else NegInf)"

text \<open>Go's \<open>x > y\<close> on float64: false whenever an operand is NaN.\<close>

fun float_gt :: "float64 \<Rightarrow> float64 \<Rightarrow> bool" where
  "float_gt NaN y = False"
| "float_gt x NaN = False"
| "float_gt (Finite a) (Finite b) = (b < a)"
| "float_gt PosInf PosInf = False"
| "float_gt PosInf y = True"
| "float_gt NegInf y = False"
| "float_gt (Finite a) PosInf = False"
| "float_gt (Finite a) NegInf = True"

definition trunc :: "rat \<Rightarrow> int" where
  \<comment> \<open>the integer part, towards zero\<close>
  "trunc r = (if 0 \<le> r then \<lfloor>r\<rfloor> else - \<lfloor>- r\<rfloor>)"

definition fits_int64 :: "int \<Rightarrow> bool" where
  "fits_int64 k = (- (2 ^ 63) \<le> k \<and> k < 2 ^ 63)"

subsection \<open>time.Time\<close>

text \<open>
  A \<open>time.Time\<close> is an instant, counted here in nanoseconds since the Unix epoch, and
  the location it is displayed in. Two times denote the same absolute instant when
  their counts agree.
\<close>

datatype location = UTC | Local | FixedZone int

record gotime =
  unix_nanos :: int
  loc :: location

definition zero_Time :: gotime where
  \<comment> \<open>\<open>time.Time{}\<close>: January 1, year 1, 00:00:00 UTC\<close>
  "zero_Time = \<lparr>unix_nanos = - 62135596800000000000, loc = UTC\<rparr>"

definition IsZero :: "gotime \<Rightarrow> bool" where
  "IsZero t = (unix_nanos t = - 62135596800000000000)"

definition Unix :: "64 word \<Rightarrow> 64 word \<Rightarrow> gotime" where
  \<comment> \<open>\<open>time.Unix(sec, nsec)\<close>: local time, \<open>sec\<close> seconds and \<open>nsec\<close> nanoseconds
      after the epoch\<close>
  "Unix sec nsec = \<lparr>unix_nanos = sint sec * 1000000000 + sint nsec, loc = Local\<rparr>"

subsection \<open>Dynamically typed values\<close>

text \<open>
  The dynamic types the two type switches of the parser name. Decoding a JSON text into
  \<open>map[string]any\<close> produces \<open>nil\<close>, \<open>bool\<close>, \<open>float64\<close>, \<open>string\<close>, \<open>[]any\<close> and
  \<open>map[string]any\<close> only; a map is kept as an association list read with \<open>map_of\<close>.
\<close>

datatype any =
    ANil
  | AString string
  | ABool bool
  | AFloat64 float64
  | ASlice "any list"
  | AMap "(string \<times> any) list"
  | ANumber string
  | AInt64 "64 word"
  | AInt "64 word"

fun json_kind :: "any \<Rightarrow> bool" where
  "json_kind (ANumber s) = False"
| "json_kind (AInt64 i) = False"
| "json_kind (AInt i) = False"
| "json_kind v = True"

subsection \<open>The standard library\<close>

text \<open>
  The parser calls into \<open>encoding/json\<close>, \<open>time\<close>, \<open>strconv\<close> and \<open>fmt\<close>. Their
  functions are parameters of the model, gathered in one record:
  \<^item> \<open>int64_out_of_range\<close>: the result of converting to \<open>int64\<close> a float64 that is NaN,
    infinite or outside the range of \<open>int64\<close>, which Go leaves to the implementation;
  \<^item> \<open>json_decode\<close>: the value a JSON text decodes to, \<open>None\<close> for a text that is not
    valid JSON;
  \<^item> \<open>json_Marshal\<close>: the compact JSON text of a value, \<open>None\<close> on error;
  \<^item> \<open>time_Parse layout input\<close>, \<open>time_Format t layout\<close>;
  \<^item> \<open>strconv_ParseFloat\<close> at bit size 64, \<open>None\<close> on error;
  \<^item> \<open>strconv_FormatFloat\<close> with format \<open>'f'\<close>, precision \<open>-1\<close>, bit size 64;
  \<^item> \<open>fmt_Sprint\<close>: the default rendering of one operand (\<open>fmt.Sprint(v)\<close>, which
    \<open>fmt.Sprintf("%v", v)\<close> equals).
\<close>

record golib =
  int64_out_of_range :: "float64 \<Rightarrow> 64 word"
  json_decode :: "string \<Rightarrow> any option"
  json_Marshal :: "any \<Rightarrow> string option"
  time_Parse :: "string \<Rightarrow> string \<Rightarrow> gotime option"
  time_Format :: "gotime \<Rightarrow> string \<Rightarrow> string"
  strconv_ParseFloat :: "string \<Rightarrow> float64 option"
  strconv_FormatFloat :: "float64 \<Rightarrow> string"
  fmt_Sprint :: "any \<Rightarrow> string"

definition int64_of_float :: "golib \<Rightarrow> float64 \<Rightarrow> 64 word" where
  \<comment> \<open>the conversion \<open>int64(x)\<close>: the fraction is discarded\<close>
  "int64_of_float L x =
     (case x of
        Finite r \<Rightarrow> if fits_int64 (trunc r) then word_of_int (trunc r)
                    else int64_out_of_range L x
      | _ \<Rightarrow> int64_out_of_range L x)"

definition float64_of_int64 :: "64 word \<Rightarrow> float64" where
  "float64_of_int64 i = round_float64 (of_int (sint i))"

fun decimal :: "nat \<Rightarrow> string" where
  "decimal n =
     (if n < 10 then [''0123456789'' ! n]
      else decimal (n div 10) @ [''0123456789'' ! (n mod 10)])"

declare decimal.simps [simp del]

definition FormatInt :: "int \<Rightarrow> string" where
  "FormatInt i = (if i < 0 then CHR ''-'' # decimal (nat (- i)) else decimal (nat i))"

definition FormatBool :: "bool \<Rightarrow> string" where
  "FormatBool b = (if b then ''true'' else ''false'')"

definition RFC3339 :: string where
  "RFC3339 = ''2006-01-02T15:04:05Z07:00''"

definition RFC3339Nano :: string where
  "RFC3339Nano = ''2006-01-02T15:04:05.999999999Z07:00''"

section \<open>entry.go: decoding one line\<close>

record LogEntry =
  Path :: string
  Timestamp :: gotime
  TimestampText :: string
  Message :: string
  Extras :: "(string \<times> string) list"
  Fields :: "(string \<times> any) list"
  Raw :: string

record ParserConfig =
  TimestampField :: string
  MessageField :: string
  ExtraFields :: "string list"

definition parseUnixNumber :: "golib \<Rightarrow> float64 \<Rightarrow> gotime" where
  "parseUnixNumber L n =
     (if float_gt n (Finite 1000000000000000000) then Unix 0 (int64_of_float L n)
      else if float_gt n (Finite 1000000000000000) then Unix 0 (int64_of_float L n)
      else if float_gt n (Finite 1000000000000) then
        Unix 0 (int64_of_float L (fmul n (Finite 1000000)))
      else if float_gt n (Finite 1000000000) then Unix (int64_of_float L n) 0
      else Unix 0 (int64_of_float L (fmul n (Finite 1000000000))))"

definition layouts :: "string list" where
  "layouts =
     [RFC3339Nano,
      RFC3339,
      ''2006-01-02T15:04:05.999999-07:00'',
      ''2006-01-02 15:04:05.999999'',
      ''2006-01-02 15:04:05'',
      ''02/01/2006 15:04:05'']"

fun try_layouts :: "golib \<Rightarrow> string list \<Rightarrow> string \<Rightarrow> gotime option" where
  "try_layouts L [] input = None"
| "try_layouts L (layout # rest) input =
     (case time_Parse L layout input of
        Some ts \<Rightarrow> Some ts
      | None \<Rightarrow> try_layouts L rest input)"

definition parseTimeString :: "golib \<Rightarrow> string \<Rightarrow> gotime \<times> bool" where
  "parseTimeString L input =
     (case try_layouts L layouts input of
        Some ts \<Rightarrow> (ts, True)
      | None \<Rightarrow>
          (case strconv_ParseFloat L input of
             Some epoch \<Rightarrow> (parseUnixNumber L epoch, True)
           | None \<Rightarrow> (zero_Time, False)))"

fun extractTimestamp :: "golib \<Rightarrow> any \<Rightarrow> gotime \<times> string" where
  "extractTimestamp L (AString v) =
     (case parseTimeString L v of
        (ts, True) \<Rightarrow> (ts, time_Format L ts RFC3339Nano)
      | (ts, False) \<Rightarrow> (zero_Time, v))"
| "extractTimestamp L (AFloat64 v) =
     (let ts = parseUnixNumber L v in (ts, time_Format L ts RFC3339Nano))"
| "extractTimestamp L (ANumber v) =
     (case strconv_ParseFloat L v of
        Some f \<Rightarrow> (let ts = parseUnixNumber L f in (ts, time_Format L ts RFC3339Nano))
      | None \<Rightarrow> (zero_Time, fmt_Sprint L (ANumber v)))"
| "extractTimestamp L (AInt64 v) =
     (let ts = parseUnixNumber L (float64_of_int64 v) in (ts, time_Format L ts RFC3339Nano))"
| "extractTimestamp L (AInt v) =
     (let ts = parseUnixNumber L (float64_of_int64 v) in (ts, time_Format L ts RFC3339Nano))"
| "extractTimestamp L ANil = (zero_Time, '''')"
| "extractTimestamp L value = (zero_Time, fmt_Sprint L value)"

fun extractString :: "golib \<Rightarrow> any \<Rightarrow> string" where
  "extractString L (AString v) = v"
| "extractString L (ANumber v) = v"
| "extractString L ANil = ''''"
| "extractString L (AFloat64 v) = strconv_FormatFloat L v"
| "extractString L (AInt64 v) = FormatInt (sint v)"
| "extractString L (AInt v) = FormatInt (sint v)"
| "extractString L (ABool v) = FormatBool v"
| "extractString L v =
     (case json_Marshal L v of
        Some data \<Rightarrow> data
      | None \<Rightarrow> fmt_Sprint L v)"

text \<open>
  \<open>json.Unmarshal(line, &fields)\<close> with \<open>fields\<close> an empty \<open>map[string]any\<close>: a JSON
  object fills the map; JSON \<open>null\<close> sets the map to \<open>nil\<close> and is no error (reading a
  \<open>nil\<close> map gives what reading an empty one gives, so it is kept as \<open>[]\<close>); any other
  JSON value is an \<open>UnmarshalTypeError\<close>; a text that is not JSON is a \<open>SyntaxError\<close>.
\<close>

datatype json_error = SyntaxError | UnmarshalTypeError

definition Unmarshal_fields :: "golib \<Rightarrow> string \<Rightarrow> json_error + (string \<times> any) list" where
  "Unmarshal_fields L line =
     (case json_decode L line of
        None \<Rightarrow> Inl SyntaxError
      | Some (AMap kvs) \<Rightarrow> Inr kvs
      | Some ANil \<Rightarrow> Inr []
      | Some v \<Rightarrow> Inl UnmarshalTypeError)"

definition index_map :: "(string \<times> any) list \<Rightarrow> string \<Rightarrow> any" where
  \<comment> \<open>\<open>fields[key]\<close>: the zero value \<open>nil\<close> for a key that is not in the map\<close>
  "index_map flds key = (case map_of flds key of None \<Rightarrow> ANil | Some v \<Rightarrow> v)"

datatype ioerr = ErrNotExist | ErrTooLong | ErrIO

text \<open>
  The errors sent on the error channel, each with the path it is about:
  \<open>"parse %s: %w"\<close>, \<open>"tail %s: %w"\<close> and \<open>"initial read %s: %w"\<close>.
\<close>

datatype tail_error =
    ParseError string json_error
  | TailError string ioerr
  | InitialReadError string ioerr

fun set_extras ::
  "golib \<Rightarrow> string \<Rightarrow> (string \<times> any) list \<Rightarrow> string list \<Rightarrow> (string \<times> string) list
     \<Rightarrow> (string \<times> string) list" where
  "set_extras L path flds [] extras = extras"
| "set_extras L path flds (name # names) extras =
     set_extras L path flds names
       (AList.update name
          (if name = ''@file'' then path else extractString L (index_map flds name))
          extras)"

definition parseEntry ::
  "golib \<Rightarrow> string \<Rightarrow> string \<Rightarrow> ParserConfig \<Rightarrow> tail_error + LogEntry" where
  "parseEntry L path line cfg =
     (case Unmarshal_fields L line of
        Inl err \<Rightarrow> Inl (ParseError path err)
      | Inr flds \<Rightarrow>
          Inr \<lparr>Path = path,
               Timestamp = fst (extractTimestamp L (index_map flds (TimestampField cfg))),
               TimestampText = snd (extractTimestamp L (index_map flds (TimestampField cfg))),
               Message = extractString L (index_map flds (MessageField cfg)),
               Extras = set_extras L path flds (ExtraFields cfg) [],
               Fields = flds,
               Raw = line\<rparr>)"

section \<open>tailer.go: reading a file\<close>

text \<open>
  What the operating system answers for the tailed path during one read: whether
  \<open>os.Open\<close>, \<open>Stat\<close> and \<open>Seek\<close> fail, the bytes of the file, and whether reading fails
  (\<open>Some (k, e)\<close>: \<open>k\<close> bytes are delivered from the read position, then error \<open>e\<close>).
  The file does not change during one read, so its size is the length of \<open>bytes\<close>.
\<close>

record osfile =
  open_error :: "ioerr option"
  stat_error :: "ioerr option"
  seek_error :: "ioerr option"
  read_error :: "(nat \<times> ioerr) option"
  bytes :: string

record fileState =
  offset :: nat
  pending :: string

abbreviation LF :: char where
  "LF \<equiv> CHR 0x0A"

abbreviation CR :: char where
  "CR \<equiv> CHR 0x0D"

subsection \<open>The initial read\<close>

definition maxTokenSize :: nat where
  "maxTokenSize = 4 * 1024 * 1024"

definition dropCR :: "string \<Rightarrow> string" where
  "dropCR tok = (if tok \<noteq> [] \<and> last tok = CR then butlast tok else tok)"

text \<open>
  All tokens of a \<open>bufio.Scanner\<close> with the default split function \<open>ScanLines\<close> and the
  buffer limit \<open>maxTokenSize\<close>: each line without its terminator and without one
  trailing carriage return, a last line that has no terminator included when it is not
  empty; \<open>ErrTooLong\<close> when a line does not fit the buffer.
\<close>

function scan_all :: "string \<Rightarrow> ioerr + string list" where
  "scan_all data =
     (if data = [] then Inr []
      else if maxTokenSize \<le> length (takeWhile (\<lambda>c. c \<noteq> LF) data) then Inl ErrTooLong
      else if dropWhile (\<lambda>c. c \<noteq> LF) data = [] then Inr [dropCR data]
      else (case scan_all (tl (dropWhile (\<lambda>c. c \<noteq> LF) data)) of
              Inl e \<Rightarrow> Inl e
            | Inr ls \<Rightarrow> Inr (dropCR (takeWhile (\<lambda>c. c \<noteq> LF) data) # ls)))"
  by pat_completeness auto
termination
proof (relation "measure length")
  show "wf (measure length)" by simp
next
  fix data :: string
  assume "data \<noteq> []" and "dropWhile (\<lambda>c. c \<noteq> LF) data \<noteq> []"
  then have "length (tl (dropWhile (\<lambda>c. c \<noteq> LF) data)) < length (dropWhile (\<lambda>c. c \<noteq> LF) data)"
    by simp
  also have "\<dots> \<le> length data"
    by (rule length_dropWhile_le)
  finally show "(tl (dropWhile (\<lambda>c. c \<noteq> LF) data), data) \<in> measure length"
    by simp
qed

declare scan_all.simps [simp del]

definition readAll :: "fileState \<Rightarrow> osfile \<Rightarrow> ioerr + fileState \<times> string list" where
  "readAll s f =
     (case open_error f of
        Some e \<Rightarrow> Inl e
      | None \<Rightarrow>
          (case read_error f of
             Some (k, e) \<Rightarrow>
               (case scan_all (take k (bytes f)) of Inl e' \<Rightarrow> Inl e' | Inr ls \<Rightarrow> Inl e)
           | None \<Rightarrow>
               (case scan_all (bytes f) of
                  Inl e \<Rightarrow> Inl e
                | Inr lines \<Rightarrow>
                    Inr (\<lparr>offset = (case stat_error f of
                                       None \<Rightarrow> length (bytes f)
                                     | Some e \<Rightarrow> offset s),
                          pending = ''''\<rparr>,
                         lines))))"

subsection \<open>The incremental read\<close>

function index_from :: "string \<Rightarrow> nat \<Rightarrow> int" where
  "index_from s i =
     (if i < length s then (if s ! i = LF then int i else index_from s (Suc i)) else - 1)"
  by pat_completeness auto
termination
  by (relation "measure (\<lambda>(s, i). length s - i)") auto

declare index_from.simps [simp del]

definition indexOfNewline :: "string \<Rightarrow> int" where
  "indexOfNewline s = index_from s 0"

text \<open>
  The inner loop of \<open>readNewLines\<close>: while \<open>pending\<close> holds a line terminator, the
  segment before it, without one trailing carriage return, is appended to \<open>lines\<close> and
  removed from \<open>pending\<close> together with the terminator.
\<close>

function drain :: "string \<Rightarrow> string list \<Rightarrow> string \<times> string list" where
  "drain pend lines =
     (let idx = indexOfNewline pend
      in if idx = - 1 then (pend, lines)
         else let segment = take (nat idx) pend;
                  segment' = (if 0 < length segment \<and> segment ! (length segment - 1) = CR
                              then take (length segment - 1) segment else segment)
              in drain (drop (nat idx + 1) pend) (lines @ [segment']))"
  by pat_completeness auto
termination
proof (relation "measure (\<lambda>(pend, lines). length pend)")
  show "wf (measure (\<lambda>(pend, lines). length pend))" by simp
next
  fix pend :: string and lines :: "string list" and idx segment segment'
  assume "idx = indexOfNewline pend" and "idx \<noteq> - 1"
  then have "pend \<noteq> []"
    by (auto simp: indexOfNewline_def index_from.simps)
  then show "((drop (nat idx + 1) pend, lines @ [segment']), (pend, lines))
               \<in> measure (\<lambda>(pend, lines). length pend)"
    by simp
qed

declare drain.simps [simp del]

text \<open>
  A \<open>bufio.Reader\<close> on the file after \<open>Seek\<close>: the bytes still to be delivered, and the
  error that ends them when reading fails. \<open>ReadString('\n')\<close> returns the bytes up to
  and including the next terminator; when there is none, it returns the bytes left
  together with \<open>io.EOF\<close> or with the read error.
\<close>

type_synonym reader = "string \<times> ioerr option"

datatype read_status = NoError | EOF | ReadFailed ioerr

definition ReadString :: "reader \<Rightarrow> string \<times> read_status \<times> reader" where
  "ReadString r =
     (if LF \<in> set (fst r)
      then (takeWhile (\<lambda>c. c \<noteq> LF) (fst r) @ [LF], NoError,
            (tl (dropWhile (\<lambda>c. c \<noteq> LF) (fst r)), snd r))
      else (fst r, (case snd r of None \<Rightarrow> EOF | Some e \<Rightarrow> ReadFailed e), ([], snd r)))"

definition take_chunk :: "string \<Rightarrow> fileState \<Rightarrow> string list \<Rightarrow> fileState \<times> string list" where
  \<comment> \<open>the body of the outer loop for one chunk\<close>
  "take_chunk chunk s lines =
     (if 0 < length chunk
      then (let d = drain (pending s @ chunk) lines
            in (\<lparr>offset = offset s + length chunk, pending = fst d\<rparr>, snd d))
      else (s, lines))"

function read_loop ::
  "reader \<Rightarrow> fileState \<Rightarrow> string list \<Rightarrow> fileState \<times> string list \<times> ioerr option" where
  "read_loop r s lines =
     (case fst (snd (ReadString r)) of
        ReadFailed e \<Rightarrow> (s, lines, Some e)
      | EOF \<Rightarrow>
          (fst (take_chunk (fst (ReadString r)) s lines),
           snd (take_chunk (fst (ReadString r)) s lines), None)
      | NoError \<Rightarrow>
          read_loop (snd (snd (ReadString r)))
            (fst (take_chunk (fst (ReadString r)) s lines))
            (snd (take_chunk (fst (ReadString r)) s lines)))"
  by pat_completeness auto
termination
proof (relation "measure (\<lambda>(r, s, lines). length (fst r))")
  show "wf (measure (\<lambda>(r, s, lines). length (fst r)))" by simp
next
  fix r :: reader and s :: fileState and lines :: "string list"
  assume "fst (snd (ReadString r)) = NoError"
  then have found: "LF \<in> set (fst r)"
    by (auto simp: ReadString_def split: if_splits option.splits)
  then have "dropWhile (\<lambda>c. c \<noteq> LF) (fst r) \<noteq> []"
    by simp
  then have "length (tl (dropWhile (\<lambda>c. c \<noteq> LF) (fst r)))
               < length (dropWhile (\<lambda>c. c \<noteq> LF) (fst r))"
    by simp
  also have "\<dots> \<le> length (fst r)"
    by (rule length_dropWhile_le)
  finally have "length (fst (snd (snd (ReadString r)))) < length (fst r)"
    using found by (simp add: ReadString_def)
  then show "((snd (snd (ReadString r)),
               fst (take_chunk (fst (ReadString r)) s lines),
               snd (take_chunk (fst (ReadString r)) s lines)),
              (r, s, lines)) \<in> measure (\<lambda>(r, s, lines). length (fst r))"
    by simp
qed

declare read_loop.simps [simp del]

definition reset :: "fileState \<Rightarrow> fileState" where
  "reset s = \<lparr>offset = 0, pending = ''''\<rparr>"

definition readNewLines :: "fileState \<Rightarrow> osfile \<Rightarrow> fileState \<times> string list \<times> ioerr option" where
  "readNewLines s f =
     (case open_error f of
        Some e \<Rightarrow> (s, [], Some e)
      | None \<Rightarrow>
          (case stat_error f of
             Some e \<Rightarrow> (s, [], Some e)
           | None \<Rightarrow>
               (let s1 = (if length (bytes f) < offset s
                          then \<lparr>offset = 0, pending = ''''\<rparr> else s)
                in case seek_error f of
                     Some e \<Rightarrow> (s1, [], Some e)
                   | None \<Rightarrow>
                       read_loop
                         (case read_error f of
                            None \<Rightarrow> (drop (offset s1) (bytes f), None)
                          | Some (k, e) \<Rightarrow> (take k (drop (offset s1) (bytes f)), Some e))
                         s1 [])))"

section \<open>tailer.go: publishing entries\<close>

record Tailer =
  files :: "string list"
  parser :: ParserConfig
  tailLines :: int

text \<open>
  The two channels are kept as the lists of what is sent on them, in order. The
  context is either never cancelled, or cancelled with \<open>k\<close> further entries sent before
  a \<open>select\<close> takes \<open>ctx.Done()\<close> and the loop returns.
\<close>

datatype ctx = Background | DoneAfter nat

fun emit_lines ::
  "golib \<Rightarrow> string \<Rightarrow> ParserConfig \<Rightarrow> ctx \<Rightarrow> string list \<Rightarrow> LogEntry list \<times> tail_error list" where
  "emit_lines L path cfg c [] = ([], [])"
| "emit_lines L path cfg c (line # rest) =
     (if line = '''' then emit_lines L path cfg c rest
      else case parseEntry L path line cfg of
             Inl err \<Rightarrow> apsnd ((#) err) (emit_lines L path cfg c rest)
           | Inr entry \<Rightarrow>
               (case c of
                  DoneAfter 0 \<Rightarrow> ([], [])
                | DoneAfter (Suc k) \<Rightarrow>
                    apfst ((#) entry) (emit_lines L path cfg (DoneAfter k) rest)
                | Background \<Rightarrow>
                    apfst ((#) entry) (emit_lines L path cfg Background rest)))"

definition readNewData ::
  "golib \<Rightarrow> Tailer \<Rightarrow> ctx \<Rightarrow> string \<Rightarrow> fileState \<Rightarrow> osfile
     \<Rightarrow> fileState \<times> LogEntry list \<times> tail_error list" where
  "readNewData L t c path s f =
     (case readNewLines s f of
        (s', lines, Some err) \<Rightarrow>
          (s', [], if err = ErrNotExist then [] else [TailError path err])
      | (s', lines, None) \<Rightarrow> (s', emit_lines L path (parser t) c lines))"

definition emitInitial ::
  "golib \<Rightarrow> Tailer \<Rightarrow> ctx \<Rightarrow> string \<Rightarrow> fileState \<Rightarrow> osfile
     \<Rightarrow> fileState \<times> LogEntry list \<times> tail_error list" where
  "emitInitial L t c path s f =
     (case readAll s f of
        Inl err \<Rightarrow> (s, [], if err = ErrNotExist then [] else [InitialReadError path err])
      | Inr (s', lines) \<Rightarrow>
          (s', emit_lines L path (parser t) c
                 (if 0 < tailLines t \<and> tailLines t < int (length lines)
                  then drop (nat (int (length lines) - tailLines t)) lines
                  else lines)))"

section \<open>What the specification says, in its own words\<close>

text \<open>
  The numeric timestamp rule as the specification words it: the unit chosen by
  magnitude, and the instant a value denotes under a unit, in nanoseconds.
\<close>

datatype epoch_unit = Nanoseconds | Microseconds | Milliseconds | Seconds | FractionalSeconds

definition spec_unit :: "rat \<Rightarrow> epoch_unit" where
  "spec_unit r =
     (if 1000000000000000000 < r then Nanoseconds
      else if 1000000000000000 < r then Nanoseconds
      else if 1000000000000 < r then Microseconds
      else if 1000000000 < r then Seconds
      else FractionalSeconds)"

fun nanos_per :: "epoch_unit \<Rightarrow> rat" where
  "nanos_per Nanoseconds = 1"
| "nanos_per Microseconds = 1000"
| "nanos_per Milliseconds = 1000000"
| "nanos_per Seconds = 1000000000"
| "nanos_per FractionalSeconds = 1000000000"

definition spec_instant :: "rat \<Rightarrow> rat" where
  "spec_instant r = r * nanos_per (spec_unit r)"

text \<open>A line that is valid JSON and a JSON object.\<close>

definition json_object_line :: "golib \<Rightarrow> string \<Rightarrow> bool" where
  "json_object_line L line =
     (case json_decode L line of Some (AMap kvs) \<Rightarrow> True | _ \<Rightarrow> False)"

text \<open>
  The terminated lines of a byte string, each without its terminator, and the bytes
  after the last terminator; \<open>cur\<close> holds the bytes of the line being read.
\<close>

fun terminated_lines :: "string \<Rightarrow> string \<Rightarrow> string list" where
  "terminated_lines cur [] = []"
| "terminated_lines cur (c # cs) =
     (if c = LF then cur # terminated_lines [] cs else terminated_lines (cur @ [c]) cs)"

fun unterminated_rest :: "string \<Rightarrow> string \<Rightarrow> string" where
  "unterminated_rest cur [] = cur"
| "unterminated_rest cur (c # cs) =
     (if c = LF then unterminated_rest [] cs else unterminated_rest (cur @ [c]) cs)"

text \<open>
  What the library must provide for a rendered timestamp never to be empty: a formatted
  time is not empty, and neither is the default rendering of a boolean, a slice or a map.
\<close>

definition renders_text :: "golib \<Rightarrow> bool" where
  "renders_text L =
     ((\<forall>t. time_Format L t RFC3339Nano \<noteq> '''') \<and>
      (\<forall>b. fmt_Sprint L (ABool b) \<noteq> '''') \<and>
      (\<forall>xs. fmt_Sprint L (ASlice xs) \<noteq> '''') \<and>
      (\<forall>kvs. fmt_Sprint L (AMap kvs) \<noteq> ''''))"

section \<open>A fragment of the library to run examples on\<close>

text \<open>
  Tables of inputs with the results the Go functions give on them. Outside the tables
  decoding, parsing and marshalling fail; a float that does not fit \<open>int64\<close> converts
  to the least \<open>int64\<close>, as on amd64.
\<close>

definition line_hello :: string where
  \<open>line_hello = ''{"timestamp":"2024-01-01T00:00:00Z","message":"hello","level":"info"}''\<close>

definition line_epoch :: string where
  \<open>line_epoch = ''{"timestamp":1700000000,"message":{"a":1},"level":true}''\<close>

definition line_empty_ts :: string where
  \<open>line_empty_ts = ''{"timestamp":"","message":"x"}''\<close>

definition line_null_ts :: string where
  \<open>line_null_ts = ''{"timestamp":null,"message":"x"}''\<close>

definition line_flag_ts :: string where
  \<open>line_flag_ts = ''{"timestamp":true}''\<close>

definition numbered :: "nat \<Rightarrow> string" where
  \<open>numbered k = ''{"n":'' @ decimal k @ ''}''\<close>

definition decode_table :: "(string \<times> any) list" where
  \<open>decode_table =
     [(''null'', ANil),
      (''{}'', AMap []),
      (''[1,2]'', ASlice [AFloat64 (Finite 1), AFloat64 (Finite 2)]),
      (''42'', AFloat64 (Finite 42)),
      (line_hello,
         AMap [(''timestamp'', AString ''2024-01-01T00:00:00Z''),
               (''message'', AString ''hello''),
               (''level'', AString ''info'')]),
      (line_epoch,
         AMap [(''timestamp'', AFloat64 (Finite 1700000000)),
               (''message'', AMap [(''a'', AFloat64 (Finite 1))]),
               (''level'', ABool True)]),
      (line_empty_ts, AMap [(''timestamp'', AString ''''), (''message'', AString ''x'')]),
      (line_null_ts, AMap [(''timestamp'', ANil), (''message'', AString ''x'')]),
      (line_flag_ts, AMap [(''timestamp'', ABool True)])]
     @ map (\<lambda>k. (numbered k, AMap [(''n'', AFloat64 (Finite (of_nat k)))]))
         [1, 2, 3, 4, 5, 6, 7, 8, 9, 10]\<close>

definition time_2024 :: gotime where
  \<comment> \<open>2024-01-01T00:00:00Z\<close>
  "time_2024 = \<lparr>unix_nanos = 1704067200000000000, loc = UTC\<rparr>"

definition parse_table :: "((string \<times> string) \<times> gotime) list" where
  "parse_table =
     [((RFC3339Nano, ''2024-01-01T00:00:00Z''), time_2024),
      ((RFC3339, ''2024-01-01T00:00:00Z''), time_2024),
      ((''2006-01-02 15:04:05.999999'', ''2024-01-01 00:00:00''), time_2024),
      ((''2006-01-02 15:04:05'', ''2024-01-01 00:00:00''), time_2024),
      ((''02/01/2006 15:04:05'', ''01/01/2024 00:00:00''), time_2024)]"

definition demo_lib :: golib where
  \<open>demo_lib =
     \<lparr>int64_out_of_range = (\<lambda>x. word_of_int (- (2 ^ 63))),
      json_decode = map_of decode_table,
      json_Marshal =
        map_of [(AMap [(''a'', AFloat64 (Finite 1))], ''{"a":1}''),
                (ASlice [AFloat64 (Finite 1), AFloat64 (Finite 2)], ''[1,2]'')],
      time_Parse = (\<lambda>layout input. map_of parse_table (layout, input)),
      time_Format = (\<lambda>t layout. ''ns='' @ FormatInt (unix_nanos t)),
      strconv_ParseFloat =
        map_of [(''1700000000'', Finite 1700000000), (''1.5'', Finite (3 / 2))],
      strconv_FormatFloat =
        (\<lambda>x. case map_of [(Finite 1, ''1''), (Finite 42, ''42''), (Finite (3 / 2), ''1.5'')] x of
               Some s \<Rightarrow> s | None \<Rightarrow> ''''),
      fmt_Sprint =
        (\<lambda>v. case v of
               ANil \<Rightarrow> ''<nil>''
             | AString s \<Rightarrow> s
             | ABool b \<Rightarrow> FormatBool b
             | ASlice xs \<Rightarrow> (if xs = [] then ''[]'' else ''[...]'')
             | AMap kvs \<Rightarrow> (if kvs = [] then ''map[]'' else ''map[...]'')
             | _ \<Rightarrow> '''')\<rparr>\<close>

definition demo_cfg :: ParserConfig where
  "demo_cfg =
     \<lparr>TimestampField = ''timestamp'', MessageField = ''message'',
      ExtraFields = [''level'', ''@file'']\<rparr>"

definition demo_tailer :: Tailer where
  "demo_tailer = \<lparr>files = [''app.log''], parser = demo_cfg, tailLines = 3\<rparr>"

definition plain_file :: "string \<Rightarrow> osfile" where
  \<comment> \<open>a file that opens and reads without error\<close>
  "plain_file data =
     \<lparr>open_error = None, stat_error = None, seek_error = None, read_error = None,
      bytes = data\<rparr>"

definition ten_lines :: string where
  "ten_lines = concat (map (\<lambda>k. numbered k @ [LF]) [1, 2, 3, 4, 5, 6, 7, 8, 9, 10])"

section \<open>Properties\<close>

subsection \<open>Evaluation rules\<close>

lemma floor_rat_numeral_div [simp]:
  "\<lfloor>(numeral a :: rat) / numeral b\<rfloor> = numeral a div numeral b"
  using floor_divide_of_int_eq [of "numeral a" "numeral b", where ?'a = rat] by simp

lemmas float_eval =
  round_float64_def nearest_binary64_def floor_log2_def bit_length.simps pow2_def
  round_half_even_def trunc_def fits_int64_def int64_of_float_def Unix_def

subsection \<open>Numeric timestamps\<close>

lemma sint_word_of_int_fits:
  "fits_int64 k \<Longrightarrow> sint (word_of_int k :: 64 word) = k"
  by (simp add: fits_int64_def sint_sbintrunc' signed_take_bit_int_eq_self)

lemma int64_of_float_fits:
  "fits_int64 (trunc r) \<Longrightarrow> sint (int64_of_float L (Finite r)) = trunc r"
  by (simp add: int64_of_float_def sint_word_of_int_fits)

lemma trunc_bounds:
  assumes "0 \<le> r" and "r \<le> of_int k"
  shows "0 \<le> trunc r" and "trunc r \<le> k"
  using assms by (simp_all add: trunc_def floor_le_iff)

lemma unix_nanos_Unix: "unix_nanos (Unix sec nsec) = sint sec * 1000000000 + sint nsec"
  by (simp add: Unix_def)

text \<open>
  Claim C1, as amended. \<open>parseUnixNumber\<close> chooses the unit of a finite number \<open>r\<close> by
  magnitude, largest first: above \<open>1e18\<close> the number counts nanoseconds; above \<open>1e12\<close>
  and up to \<open>1e15\<close> it counts milliseconds and is multiplied by \<open>1e6\<close>; above \<open>1e9\<close> and
  up to \<open>1e12\<close> it counts seconds, of which the whole ones are kept; any other number
  counts seconds with a fraction and is multiplied by \<open>1e9\<close>. The timestamp is the epoch
  instant under that unit: the product is the binary64 one, its fraction of a
  nanosecond is discarded, and the count of nanoseconds has to fit a signed 64-bit
  integer. The band above \<open>1e15\<close> and up to \<open>1e18\<close> is left to claim C2.
\<close>

theorem parseUnixNumber_units:
  "(1000000000000000000 < r \<and> fits_int64 (trunc r) \<longrightarrow>
      unix_nanos (parseUnixNumber L (Finite r)) = trunc r) \<and>
   (1000000000000 < r \<and> r \<le> 1000000000000000 \<and>
      round_float64 (r * nanos_per Milliseconds) = Finite p \<and> fits_int64 (trunc p) \<longrightarrow>
      unix_nanos (parseUnixNumber L (Finite r)) = trunc p) \<and>
   (1000000000 < r \<and> r \<le> 1000000000000 \<longrightarrow>
      unix_nanos (parseUnixNumber L (Finite r)) = trunc r * 1000000000) \<and>
   (r \<le> 1000000000 \<and>
      round_float64 (r * nanos_per FractionalSeconds) = Finite q \<and> fits_int64 (trunc q) \<longrightarrow>
      unix_nanos (parseUnixNumber L (Finite r)) = trunc q)"
proof (intro conjI impI)
  assume "1000000000000000000 < r \<and> fits_int64 (trunc r)"
  then show "unix_nanos (parseUnixNumber L (Finite r)) = trunc r"
    by (simp add: parseUnixNumber_def unix_nanos_Unix int64_of_float_fits)
next
  assume "1000000000000 < r \<and> r \<le> 1000000000000000 \<and>
      round_float64 (r * nanos_per Milliseconds) = Finite p \<and> fits_int64 (trunc p)"
  then show "unix_nanos (parseUnixNumber L (Finite r)) = trunc p"
    by (simp add: parseUnixNumber_def unix_nanos_Unix int64_of_float_fits)
next
  assume band: "1000000000 < r \<and> r \<le> 1000000000000"
  then have "0 \<le> trunc r" and "trunc r \<le> 1000000000000"
    using trunc_bounds [of r 1000000000000] by simp_all
  then have "fits_int64 (trunc r)"
    by (simp add: fits_int64_def)
  with band show "unix_nanos (parseUnixNumber L (Finite r)) = trunc r * 1000000000"
    by (simp add: parseUnixNumber_def unix_nanos_Unix int64_of_float_fits)
next
  assume "r \<le> 1000000000 \<and>
      round_float64 (r * nanos_per FractionalSeconds) = Finite q \<and> fits_int64 (trunc q)"
  then show "unix_nanos (parseUnixNumber L (Finite r)) = trunc q"
    by (simp add: parseUnixNumber_def unix_nanos_Unix int64_of_float_fits)
qed

text \<open>
  The four bands at \<open>2e18\<close>, \<open>1700000000000\<close>, \<open>1700000000.5\<close> and \<open>1.5\<close>.
\<close>

theorem parseUnixNumber_units_witness:
  "unix_nanos (parseUnixNumber demo_lib (Finite 2000000000000000000)) = 2000000000000000000 \<and>
   unix_nanos (parseUnixNumber demo_lib (Finite 1700000000000)) = 1700000000000000000 \<and>
   unix_nanos (parseUnixNumber demo_lib (Finite (3400000001 / 2))) = 1700000000000000000 \<and>
   unix_nanos (parseUnixNumber demo_lib (Finite (3 / 2))) = 1500000000"
proof -
  have ns: "(1000000000000000000 :: rat) < 2000000000000000000 \<and>
      fits_int64 (trunc 2000000000000000000)"
    by (simp add: float_eval)
  have ms: "(1000000000000 :: rat) < 1700000000000 \<and> (1700000000000 :: rat) \<le> 1000000000000000 \<and>
      round_float64 (1700000000000 * nanos_per Milliseconds) = Finite 1700000000000000000 \<and>
      fits_int64 (trunc 1700000000000000000)"
    by (simp add: float_eval)
  have s: "(1000000000 :: rat) < 3400000001 / 2 \<and> (3400000001 / 2 :: rat) \<le> 1000000000000"
    by simp
  have fs: "(3 / 2 :: rat) \<le> 1000000000 \<and>
      round_float64 (3 / 2 * nanos_per FractionalSeconds) = Finite 1500000000 \<and>
      fits_int64 (trunc 1500000000)"
    by (simp add: float_eval)
  show ?thesis
    using ns ms s fs
      parseUnixNumber_units [of 2000000000000000000 demo_lib 0 0]
      parseUnixNumber_units [of 1700000000000 demo_lib 1700000000000000000 0]
      parseUnixNumber_units [of "3400000001 / 2" demo_lib 0 0]
      parseUnixNumber_units [of "3 / 2" demo_lib 0 1500000000]
    by (simp add: trunc_def)
qed

text \<open>
  Claim C1 as the specification words it fails at three inputs. \<open>1700000000000\<close> lies
  above \<open>1e12\<close>: the specification reads it as microseconds, the code multiplies it by
  \<open>1e6\<close>. \<open>1700000000.5\<close> lies above \<open>1e9\<close>: read as seconds it denotes an instant half a
  second after the one the code returns. \<open>1e19\<close> lies above \<open>1e18\<close>: no signed 64-bit
  count of nanoseconds equals it.
\<close>

theorem parseUnixNumber_counterexample:
  "unix_nanos (parseUnixNumber demo_lib (Finite 1700000000000)) = 1700000000000000000 \<and>
   spec_instant 1700000000000 = 1700000000000000 \<and>
   unix_nanos (parseUnixNumber demo_lib (Finite (3400000001 / 2))) = 1700000000000000000 \<and>
   spec_instant (3400000001 / 2) = 1700000000500000000 \<and>
   unix_nanos (parseUnixNumber demo_lib (Finite 10000000000000000000)) = - 9223372036854775808 \<and>
   spec_instant 10000000000000000000 = 10000000000000000000"
  by (simp add: parseUnixNumber_def float_eval spec_instant_def spec_unit_def demo_lib_def)

text \<open>Whatever an implementation converts \<open>1e19\<close> to, the result lies before \<open>1e19\<close> nanoseconds.\<close>

lemma parseUnixNumber_never_beyond_int64:
  "unix_nanos (parseUnixNumber L (Finite 10000000000000000000)) < 10000000000000000000"
proof -
  have "sint (int64_out_of_range L (Finite 10000000000000000000)) < 2 ^ 63"
    using sint_lt [of "int64_out_of_range L (Finite 10000000000000000000)"] by simp
  then show ?thesis
    by (simp add: parseUnixNumber_def float_eval)
qed

text \<open>
  Claim C2. The specification has \<open>1700000000\<close>, \<open>1700000000000\<close>, \<open>1700000000000000\<close> and
  \<open>1700000000000000000\<close> read as seconds, milliseconds, microseconds and nanoseconds and
  resolve to one instant. The code returns the instant \<open>1700000000000000000\<close> nanoseconds
  after the epoch for the first, the second and the fourth, and \<open>1700000000000000\<close>
  nanoseconds after the epoch, a thousand times earlier, for the third: its case
  \<open>n > 1e15\<close> repeats the body of the case \<open>n > 1e18\<close>.
\<close>

theorem parseUnixNumber_four_epochs:
  "unix_nanos (parseUnixNumber L (Finite 1700000000)) = 1700000000000000000 \<and>
   unix_nanos (parseUnixNumber L (Finite 1700000000000)) = 1700000000000000000 \<and>
   unix_nanos (parseUnixNumber L (Finite 1700000000000000000)) = 1700000000000000000 \<and>
   unix_nanos (parseUnixNumber L (Finite 1700000000000000)) = 1700000000000000"
  by (simp add: parseUnixNumber_def float_eval)

end
